theory Spec2Isabelle
  imports Complex_Main "HOL-Library.Char_ord" "HOL-Library.List_Lexorder"
    "HOL-Library.Multiset"
begin

section \<open>Python values and errors\<close>

text \<open>
  Exceptions of the Python source are values of \<open>py_error\<close>; a call that may raise
  returns \<open>py_error + 'a\<close>, with \<open>Inl\<close> for the exception. Floats of the source
  (numpy \<open>float64\<close>, SQLite \<open>REAL\<close>) are idealised as \<open>real\<close>.
\<close>

datatype py_error =
    ValueError
  | IndexError
  | AttributeError
  | JSONDecodeError
  | OperationalError
  | RequestException string
  | BcryptError string

section \<open>Reinforcement learning setup\<close>

text \<open>The four prompt templates of \<open>actions\<close>; \<open>{}\<close> is the placeholder of \<open>str.format\<close>.\<close>

definition actions :: "string list" where
  "actions =
    [''Generate basic code for: {}'',
     ''Generate structured code with functions and error handling for: {}'',
     ''Generate code for: {} and add detailed comments for clarity'',
     ''Generate optimized code for: {}'']"

definition num_actions :: nat where
  "num_actions = length actions"

text \<open>
  The draws of the \<open>random\<close> module are supplied by the environment: \<open>random01\<close> is the
  value of \<open>random.random()\<close>, which lies in \<open>[0, 1)\<close>, and \<open>randbelow n\<close> the index
  drawn below \<open>n\<close>.
\<close>

record rng =
  random01 :: real
  randbelow :: "nat \<Rightarrow> nat"

definition rng_ok :: "rng \<Rightarrow> bool" where
  "rng_ok g \<longleftrightarrow> 0 \<le> random01 g \<and> random01 g < 1"

text \<open>\<open>random.uniform(a, b)\<close> is \<open>a + (b - a) * random()\<close>.\<close>

definition py_uniform :: "rng \<Rightarrow> real \<Rightarrow> real \<Rightarrow> real" where
  "py_uniform g a b = a + (b - a) * random01 g"

text \<open>\<open>random.choice(seq)\<close> is \<open>seq[randbelow(len(seq))]\<close>; it raises IndexError on an empty sequence.\<close>

definition py_choice :: "rng \<Rightarrow> 'a list \<Rightarrow> py_error + 'a" where
  "py_choice g xs =
     (if randbelow g (length xs) < length xs then Inr (xs ! randbelow g (length xs))
      else Inl IndexError)"

text \<open>\<open>np.max\<close> of a one-dimensional array; it raises ValueError on an empty array.\<close>

fun np_max :: "real list \<Rightarrow> py_error + real" where
  "np_max [] = Inl ValueError"
| "np_max (x # xs) = Inr (fold max xs x)"

text \<open>
  \<open>np.argmax\<close>: a left-to-right scan that keeps the index of the best value seen and
  replaces it only by a strictly greater one, so the first occurrence of the maximum wins.
\<close>

fun argmax_scan :: "real list \<Rightarrow> nat \<Rightarrow> nat \<Rightarrow> real \<Rightarrow> nat" where
  "argmax_scan [] i b v = b"
| "argmax_scan (x # xs) i b v =
     (if v < x then argmax_scan xs (Suc i) i x else argmax_scan xs (Suc i) b v)"

fun np_argmax :: "real list \<Rightarrow> py_error + nat" where
  "np_argmax [] = Inl ValueError"
| "np_argmax (x # xs) = Inr (argmax_scan xs 1 0 x)"

definition get_action :: "rng \<Rightarrow> real list \<Rightarrow> real \<Rightarrow> py_error + nat" where
  "get_action g Q_table epsilon =
     (if py_uniform g 0 1 < epsilon then py_choice g [0..<num_actions]
      else np_argmax Q_table)"

text \<open>Python indexing of a sequence of length \<open>n\<close>: a negative index counts from the end.\<close>

definition py_index :: "nat \<Rightarrow> int \<Rightarrow> py_error + nat" where
  "py_index n i =
     (let j = (if i < 0 then int n + i else i)
      in if 0 \<le> j \<and> j < int n then Inr (nat j) else Inl IndexError)"

text \<open>
  \<open>update_Q\<close> mutates the array in place and returns it; the model returns the new array.
  \<open>best_next\<close> is read before the entry is written.
\<close>

definition update_Q :: "real list \<Rightarrow> int \<Rightarrow> real \<Rightarrow> real \<Rightarrow> real \<Rightarrow> py_error + real list" where
  "update_Q Q_table action_idx reward learning_rate discount_factor =
     (case np_max Q_table of
        Inl e \<Rightarrow> Inl e
      | Inr best_next \<Rightarrow>
          (case py_index (length Q_table) action_idx of
             Inl e \<Rightarrow> Inl e
           | Inr i \<Rightarrow>
               Inr (Q_table[i := Q_table ! i +
                      learning_rate * (reward + discount_factor * best_next - Q_table ! i)])))"

section \<open>Python strings\<close>

text \<open>
  A Python \<open>str\<close> is modelled as \<open>string\<close>; a \<open>char\<close> stands for a code point below
  256. \<open>str.isspace\<close> on that range: tab to carriage return, the four separators
  U+001C to U+001F, space, U+0085 and U+00A0.
\<close>

definition py_isspace :: "char \<Rightarrow> bool" where
  "py_isspace c \<longleftrightarrow>
     (let n = (of_char c :: nat)
      in (9 \<le> n \<and> n \<le> 13) \<or> (28 \<le> n \<and> n \<le> 32) \<or> n = 133 \<or> n = 160)"

text \<open>\<open>s.strip()\<close> removes the leading and the trailing white space.\<close>

definition py_strip :: "string \<Rightarrow> string" where
  "py_strip s = rev (dropWhile py_isspace (rev (dropWhile py_isspace s)))"

text \<open>\<open>s.find(sub)\<close>: the lowest index at which \<open>sub\<close> occurs in \<open>s\<close>, \<open>None\<close> for Python's -1.\<close>

fun py_find :: "'a list \<Rightarrow> 'a list \<Rightarrow> nat option" where
  "py_find sub [] = (if sub = [] then Some 0 else None)"
| "py_find sub (c # cs) =
     (if take (length sub) (c # cs) = sub then Some 0
      else map_option Suc (py_find sub cs))"

text \<open>\<open>sub in s\<close>.\<close>

definition py_in :: "'a list \<Rightarrow> 'a list \<Rightarrow> bool" where
  "py_in sub s \<longleftrightarrow> py_find sub s \<noteq> None"

lemma py_find_bound: "py_find sub s = Some i \<Longrightarrow> i + length sub \<le> length s"
proof (induction s arbitrary: i)
  case Nil
  then show ?case by (simp split: if_splits)
next
  case (Cons c cs)
  show ?case
  proof (cases "take (length sub) (c # cs) = sub")
    case True
    then have "length (take (length sub) (c # cs)) = length sub" by simp
    then have "length sub \<le> length (c # cs)" by (simp only: length_take)
    with True Cons.prems show ?thesis by simp
  next
    case False
    with Cons.prems obtain j where "py_find sub cs = Some j" "i = Suc j" by auto
    with Cons.IH show ?thesis by fastforce
  qed
qed

text \<open>
  \<open>s.split(sep)\<close> for a non-empty separator: cut at the leftmost occurrence of \<open>sep\<close> and
  go on behind it; the text without an occurrence is the last piece. An empty
  separator raises ValueError.
\<close>

function split_pieces :: "'a list \<Rightarrow> 'a list \<Rightarrow> 'a list list" where
  "split_pieces sep s =
     (if sep = [] then [s]
      else case py_find sep s of
             None \<Rightarrow> [s]
           | Some i \<Rightarrow> take i s # split_pieces sep (drop (i + length sep) s))"
  by pat_completeness auto
termination
proof (relation "measure (\<lambda>(sep, s). length s)")
  show "wf (measure (\<lambda>(sep, s). length s))" by simp
next
  fix sep s :: "'a list" and i
  assume "sep \<noteq> []" and "py_find sep s = Some i"
  then have "0 < length sep" and "i + length sep \<le> length s"
    by (simp_all add: py_find_bound)
  then have "length s - (i + length sep) < length s" by arith
  then show "((sep, drop (i + length sep) s), (sep, s)) \<in> measure (\<lambda>(sep, s). length s)"
    by simp
qed

definition py_split :: "'a list \<Rightarrow> 'a list \<Rightarrow> py_error + 'a list list" where
  "py_split sep s = (if sep = [] then Inl ValueError else Inr (split_pieces sep s))"

text \<open>\<open>xs[i]\<close> on a list.\<close>

definition py_getitem :: "'a list \<Rightarrow> int \<Rightarrow> py_error + 'a" where
  "py_getitem xs i = (case py_index (length xs) i of Inl e \<Rightarrow> Inl e | Inr j \<Rightarrow> Inr (xs ! j))"

section \<open>Parsing the generated code out of the response\<close>

text \<open>The fence delimiter of a Markdown code block: three backquotes.\<close>

definition fence :: string where
  "fence = [CHR 0x60, CHR 0x60, CHR 0x60]"

text \<open>
  The response handling of \<open>display_main_app\<close>, from the \<open>response\<close> field of the JSON
  body to the value stored as \<open>st.session_state.generated_code\<close>:
  \<^verbatim>\<open>
  generated_code = response.json().get("response", "").strip()
  if "```" in generated_code:
      code_blocks = generated_code.split("```")
      generated_code = "```" + code_blocks[1] + "```"
  \<close>
\<close>

definition extract_generated_code :: "string \<Rightarrow> py_error + string" where
  "extract_generated_code response_text =
     (let generated_code = py_strip response_text
      in if py_in fence generated_code then
           (case py_split fence generated_code of
              Inl e \<Rightarrow> Inl e
            | Inr code_blocks \<Rightarrow>
                (case py_getitem code_blocks 1 of
                   Inl e \<Rightarrow> Inl e
                 | Inr block \<Rightarrow> Inr (fence @ block @ fence)))
         else Inr generated_code)"

text \<open>
  The first fenced block as the specification words it: the text between the first
  fence delimiter and the next one, or the end of the text when the block is not closed.
\<close>

definition first_fenced_block :: "string \<Rightarrow> string option" where
  "first_fenced_block s =
     (case py_find fence s of
        None \<Rightarrow> None
      | Some i \<Rightarrow>
          (let rest = drop (i + length fence) s
           in case py_find fence rest of
                None \<Rightarrow> Some rest
              | Some j \<Rightarrow> Some (take j rest)))"

section \<open>The credential store and the per-user databases\<close>

text \<open>
  SQLite is modelled by its tables: a table is the list of its rows in rowid order. The
  file system under \<open>user_databases/\<close> is a map from the username to the database
  file \<open>user_databases/{username}.sqlite\<close>. A database file may lack a table:
  \<open>sqlite3.connect\<close> on a missing file creates an empty database, and a statement on a
  missing table raises \<open>sqlite3.OperationalError\<close>. Connecting, inserting and committing
  succeed otherwise, with one exception: the creation of a user's database file at the
  end of a registration can fail. The only constraint violation is the uniqueness of
  \<open>users.username\<close>.
\<close>

record user_row =
  user_id :: nat
  user_username :: string
  user_password :: string
  user_created_at :: string

record chat_row =
  chat_id :: nat
  chat_timestamp :: string
  chat_user_input :: string
  chat_generated_code :: string

record pref_row =
  pref_id :: nat
  pref_temperature :: real
  pref_speed :: int
  pref_favorite_language :: string

record user_db =
  chat_history_table :: "chat_row list option"
  user_preferences_table :: "pref_row list option"

type_synonym user_databases = "string \<rightharpoonup> user_db"

record database =
  users :: "user_row list"
  user_dbs :: user_databases

text \<open>The state after \<open>init_db\<close> on a fresh installation: an empty \<open>users\<close> table, no user database.\<close>

definition init_db :: database where
  "init_db = \<lparr>users = [], user_dbs = Map.empty\<rparr>"

text \<open>\<open>INTEGER PRIMARY KEY AUTOINCREMENT\<close>: one more than the largest id in use.\<close>

definition next_rowid :: "nat list \<Rightarrow> nat" where
  "next_rowid ids = Suc (fold max ids 0)"

definition connect :: "user_databases \<Rightarrow> string \<Rightarrow> user_db" where
  "connect dbs username =
     (case dbs username of
        None \<Rightarrow> \<lparr>chat_history_table = None, user_preferences_table = None\<rparr>
      | Some d \<Rightarrow> d)"

text \<open>The dictionary of preferences passed between the database and the session.\<close>

record preferences =
  temperature :: real
  speed :: int
  favorite_language :: string

definition default_preferences :: preferences where
  "default_preferences = \<lparr>temperature = 7/10, speed = 5, favorite_language = ''python''\<rparr>"

definition create_user_db :: "user_databases \<Rightarrow> string \<Rightarrow> user_databases" where
  "create_user_db dbs username =
     (let d = connect dbs username;
          chat = (case chat_history_table d of None \<Rightarrow> [] | Some rows \<Rightarrow> rows);
          prefs = (case user_preferences_table d of None \<Rightarrow> [] | Some rows \<Rightarrow> rows);
          row = \<lparr>pref_id = next_rowid (map pref_id prefs), pref_temperature = 7/10,
                 pref_speed = 5, pref_favorite_language = ''python''\<rparr>
      in dbs(username \<mapsto>
           \<lparr>chat_history_table = Some chat, user_preferences_table = Some (prefs @ [row])\<rparr>))"

subsection \<open>User authentication\<close>

text \<open>
  The \<open>bcrypt\<close> library is a parameter. \<open>hashpw password salt\<close> is the stored hash and
  \<open>checkpw password hashed\<close> the verification; either call may raise, and then the
  value is \<open>Inl\<close> with \<open>str(e)\<close> of the exception (the library refuses or cuts
  passwords of more than 72 bytes, depending on its version).
\<close>

record bcrypt =
  hashpw :: "string \<Rightarrow> string \<Rightarrow> string + string"
  checkpw :: "string \<Rightarrow> string \<Rightarrow> string + bool"

definition hash_password :: "bcrypt \<Rightarrow> string \<Rightarrow> string \<Rightarrow> string + string" where
  "hash_password bc salt password = hashpw bc password salt"

definition verify_password :: "bcrypt \<Rightarrow> string \<Rightarrow> string \<Rightarrow> string + bool" where
  "verify_password bc password hashed_password = checkpw bc password hashed_password"

text \<open>
  \<open>register_user\<close>. \<open>salt\<close> is the value of \<open>bcrypt.gensalt()\<close> and \<open>current_time\<close> the
  formatted \<open>datetime.now()\<close>. \<open>can_create username\<close> tells whether, at this call,
  \<open>sqlite3.connect\<close> in \<open>create_user_db\<close> can create the database file of the user; it
  cannot when the path \<open>user_databases/{username}.sqlite\<close> lies in a directory that does
  not exist, and then it raises \<open>OperationalError: unable to open database file\<close>. The
  branches are those of the source:
  \<^item> hashing raises: the handler \<open>except Exception\<close> returns \<open>(False, "Error: ...")\<close>,
    nothing is stored;
  \<^item> the insert raises \<open>sqlite3.IntegrityError\<close>, the username being taken:
    \<open>(False, "Username already exists.")\<close>;
  \<^item> the row is inserted and committed, then \<open>create_user_db\<close> raises: the handler
    \<open>except Exception\<close> returns \<open>(False, "Error: ...")\<close>, and the committed row stays;
  \<^item> otherwise \<open>(True, "Registration successful!")\<close>.
\<close>

definition register_user ::
  "bcrypt \<Rightarrow> (string \<Rightarrow> bool) \<Rightarrow> string \<Rightarrow> string \<Rightarrow> database \<Rightarrow> string \<Rightarrow> string
     \<Rightarrow> database \<times> bool \<times> string" where
  "register_user bc can_create salt current_time db username password =
     (case hash_password bc salt password of
        Inl message \<Rightarrow> (db, False, ''Error: '' @ message)
      | Inr hashed_password \<Rightarrow>
          if username \<in> set (map user_username (users db)) then
            (db, False, ''Username already exists.'')
          else
            (let committed = db\<lparr>users := users db @
                   [\<lparr>user_id = next_rowid (map user_id (users db)), user_username = username,
                     user_password = hashed_password, user_created_at = current_time\<rparr>]\<rparr>
             in if can_create username then
                  (committed\<lparr>user_dbs := create_user_db (user_dbs db) username\<rparr>,
                   True, ''Registration successful!'')
                else (committed, False, ''Error: unable to open database file'')))"

text \<open>
  \<open>authenticate_user\<close> has no handler: an exception of \<open>bcrypt.checkpw\<close> escapes it.
\<close>

definition authenticate_user ::
  "bcrypt \<Rightarrow> database \<Rightarrow> string \<Rightarrow> string \<Rightarrow> py_error + bool \<times> string" where
  "authenticate_user bc db username password =
     (case find (\<lambda>r. user_username r = username) (users db) of
        Some result \<Rightarrow>
          (case verify_password bc password (user_password result) of
             Inl message \<Rightarrow> Inl (BcryptError message)
           | Inr True \<Rightarrow> Inr (True, ''Login successful!'')
           | Inr False \<Rightarrow> Inr (False, ''Incorrect password.''))
      | None \<Rightarrow> Inr (False, ''Username not found.''))"

subsection \<open>Chat history and preferences\<close>

definition save_chat_history ::
  "string \<Rightarrow> user_databases \<Rightarrow> string \<Rightarrow> string \<Rightarrow> string \<Rightarrow> user_databases \<times> (py_error + unit)" where
  "save_chat_history timestamp dbs username user_input generated_code =
     (let d = connect dbs username
      in case chat_history_table d of
           None \<Rightarrow> (dbs(username \<mapsto> d), Inl OperationalError)
         | Some rows \<Rightarrow>
             (dbs(username \<mapsto> d\<lparr>chat_history_table := Some (rows @
                [\<lparr>chat_id = next_rowid (map chat_id rows), chat_timestamp = timestamp,
                  chat_user_input = user_input, chat_generated_code = generated_code\<rparr>])\<rparr>),
              Inr ()))"

text \<open>
  \<open>ORDER BY timestamp DESC\<close>: each row goes in front of the first row with a strictly
  smaller timestamp. Timestamps are compared as text. SQL leaves the order of rows
  with equal timestamps open; the model keeps them in rowid order.
\<close>

fun insert_desc :: "chat_row \<Rightarrow> chat_row list \<Rightarrow> chat_row list" where
  "insert_desc r [] = [r]"
| "insert_desc r (x # xs) =
     (if chat_timestamp x < chat_timestamp r then r # x # xs else x # insert_desc r xs)"

definition order_by_timestamp_desc :: "chat_row list \<Rightarrow> chat_row list" where
  "order_by_timestamp_desc rows = foldl (\<lambda>sorted r. insert_desc r sorted) [] rows"

text \<open>A fetched row: the tuple \<open>(timestamp, user_input, generated_code)\<close>.\<close>

definition chat_entry :: "chat_row \<Rightarrow> string \<times> string \<times> string" where
  "chat_entry r = (chat_timestamp r, chat_user_input r, chat_generated_code r)"

definition load_chat_history ::
  "user_databases \<Rightarrow> string \<Rightarrow> py_error + (string \<times> string \<times> string) list" where
  "load_chat_history dbs username =
     (case dbs username of
        None \<Rightarrow> Inr []
      | Some d \<Rightarrow>
          (case chat_history_table d of
             None \<Rightarrow> Inl OperationalError
           | Some rows \<Rightarrow>
               Inr (map chat_entry (take 10 (order_by_timestamp_desc rows)))))"

definition get_user_preferences :: "user_databases \<Rightarrow> string \<Rightarrow> py_error + preferences" where
  "get_user_preferences dbs username =
     (case dbs username of
        None \<Rightarrow> Inr default_preferences
      | Some d \<Rightarrow>
          (case user_preferences_table d of
             None \<Rightarrow> Inl OperationalError
           | Some [] \<Rightarrow> Inr default_preferences
           | Some (result # _) \<Rightarrow>
               Inr \<lparr>temperature = pref_temperature result, speed = pref_speed result,
                    favorite_language = pref_favorite_language result\<rparr>))"


section \<open>Session state\<close>

text \<open>
  \<open>st.session_state\<close> with the keys the modelled code reads or writes. An entry of the
  displayed chat history is an HTML string rendered from a timestamp and a text; the
  model keeps the two fields and who speaks.
\<close>

datatype chat_message =
    UserMessage string string
  | AssistantMessage string string

record session_state =
  st_chat_history :: "chat_message list"
  st_generated_code :: string
  st_temperature :: real
  st_speed :: int
  st_input_text_buffer :: string
  st_should_update_textarea :: bool
  st_feedback_submitted :: bool
  st_feedback_score :: int
  st_last_action_idx :: nat
  st_code_language :: string
  st_auto_submit :: bool
  st_authenticated :: bool
  st_username :: string
  st_login_error :: string
  st_register_error :: string
  st_session_id :: string
  st_needs_rerun :: bool
  st_Q_table :: "real list"

text \<open>
  \<open>init_session_state\<close>, \<open>init_callback_handlers\<close> and \<open>initialize_q_table\<close> on a
  session state that holds nothing but \<open>session_id\<close>: every key gets its default.
\<close>

definition init_session_state :: "string \<Rightarrow> session_state" where
  "init_session_state session_id =
     \<lparr>st_chat_history = [], st_generated_code = [], st_temperature = 7/10, st_speed = 5,
      st_input_text_buffer = [], st_should_update_textarea = False,
      st_feedback_submitted = False, st_feedback_score = 0, st_last_action_idx = 0,
      st_code_language = ''python'', st_auto_submit = False, st_authenticated = False,
      st_username = [], st_login_error = [], st_register_error = [],
      st_session_id = session_id, st_needs_rerun = False,
      st_Q_table = replicate num_actions 0\<rparr>"

subsection \<open>Authentication callbacks\<close>

text \<open>
  A callback returns the new state and the exception that escaped it, if any; the
  assignments made before the exception stay.
\<close>

definition history_messages :: "(string \<times> string \<times> string) list \<Rightarrow> chat_message list" where
  "history_messages history =
     concat (map (\<lambda>(timestamp, user_input, generated_code).
       [UserMessage timestamp user_input, AssistantMessage timestamp generated_code]) history)"

definition login_callback ::
  "bcrypt \<Rightarrow> database \<Rightarrow> session_state \<Rightarrow> string \<Rightarrow> string \<Rightarrow> session_state \<times> py_error option" where
  "login_callback bc db s login_username login_password =
     (case authenticate_user bc db login_username login_password of
        Inl e \<Rightarrow> (s, Some e)
      | Inr (True, message) \<Rightarrow>
          (let s1 = s\<lparr>st_authenticated := True, st_username := login_username,
                      st_login_error := []\<rparr>
           in case get_user_preferences (user_dbs db) login_username of
                Inl e \<Rightarrow> (s1, Some e)
              | Inr prefs \<Rightarrow>
                  (let s2 = s1\<lparr>st_temperature := temperature prefs, st_speed := speed prefs,
                               st_code_language := favorite_language prefs\<rparr>
                   in case load_chat_history (user_dbs db) login_username of
                        Inl e \<Rightarrow> (s2, Some e)
                      | Inr history \<Rightarrow>
                          (s2\<lparr>st_chat_history := history_messages history\<rparr>, None)))
      | Inr (False, message) \<Rightarrow> (s\<lparr>st_login_error := message\<rparr>, None))"

definition register_callback ::
  "bcrypt \<Rightarrow> (string \<Rightarrow> bool) \<Rightarrow> string \<Rightarrow> string \<Rightarrow> database \<Rightarrow> session_state
     \<Rightarrow> string \<Rightarrow> string \<Rightarrow> string \<Rightarrow> database \<times> session_state" where
  "register_callback bc can_create salt current_time db s register_username register_password
       register_confirm_password =
     (if register_password \<noteq> register_confirm_password then
        (db, s\<lparr>st_register_error := ''Passwords do not match.''\<rparr>)
      else if length register_password < 6 then
        (db, s\<lparr>st_register_error := ''Password must be at least 6 characters long.''\<rparr>)
      else
        (case register_user bc can_create salt current_time db register_username
                register_password of
           (db', True, message) \<Rightarrow>
             (db', s\<lparr>st_authenticated := True, st_username := register_username,
                     st_register_error := []\<rparr>)
         | (db', False, message) \<Rightarrow> (db', s\<lparr>st_register_error := message\<rparr>)))"


section \<open>Code generation\<close>

text \<open>
  The generation API is a parameter: a function from the JSON payload of the request
  to what \<open>requests.post\<close> does, an exception or a response. \<open>json_body\<close> is what
  \<open>response.json().get("response", "")\<close> meets.
\<close>

record api_request =
  req_model :: string
  req_prompt :: string
  req_stream :: bool
  req_temperature :: real

datatype json_body =
    InvalidJson
  | NotAnObject
  | NoResponseKey
  | ResponseText string
  | ResponseNotText

record http_response =
  status_code :: int
  body_text :: string
  json :: json_body

type_synonym generation_api = "api_request \<Rightarrow> py_error + http_response"

text \<open>\<open>response.json().get("response", "")\<close>.\<close>

fun response_field :: "json_body \<Rightarrow> py_error + string" where
  "response_field InvalidJson = Inl JSONDecodeError"
| "response_field NotAnObject = Inl AttributeError"
| "response_field NoResponseKey = Inr []"
| "response_field (ResponseText t) = Inr t"
| "response_field ResponseNotText = Inl AttributeError"

text \<open>\<open>template.format(user_input)\<close> for a template with the placeholder \<open>{}\<close>.\<close>

definition py_format :: "string \<Rightarrow> string \<Rightarrow> string" where
  "py_format template arg =
     (case py_find ''{}'' template of
        None \<Rightarrow> template
      | Some i \<Rightarrow> take i template @ arg @ drop (i + 2) template)"

datatype input_method = Text | Voice | Image | Document

datatype ui_error =
    ApiError int string
  | GenerationError py_error

text \<open>
  The branch of \<open>display_main_app\<close> under the button "Generate Code". It returns the
  user databases, the session state, the messages shown with \<open>st.error\<close> and the
  exception that escaped, if any. \<open>get_action\<close> and the template lookup run before the
  \<open>try\<close>; everything raised inside the \<open>try\<close> is caught and shown.
\<close>

definition store_generated_code ::
  "string \<Rightarrow> string \<Rightarrow> string \<Rightarrow> user_databases \<Rightarrow> session_state
     \<Rightarrow> user_databases \<times> session_state \<times> ui_error list" where
  "store_generated_code timestamp user_input generated_code dbs s =
     (let s2 = s\<lparr>st_generated_code := generated_code,
                 st_chat_history := st_chat_history s @
                   [UserMessage timestamp user_input,
                    AssistantMessage timestamp generated_code]\<rparr>
      in if st_authenticated s2 then
           (case save_chat_history timestamp dbs (st_username s2) user_input generated_code of
              (dbs', Inl e) \<Rightarrow> (dbs', s2, [GenerationError e])
            | (dbs', Inr _) \<Rightarrow> (dbs', s2, []))
         else (dbs, s2, []))"

definition handle_response ::
  "string \<Rightarrow> string \<Rightarrow> py_error + http_response \<Rightarrow> user_databases \<Rightarrow> session_state
     \<Rightarrow> user_databases \<times> session_state \<times> ui_error list" where
  "handle_response timestamp user_input posted dbs s =
     (case posted of
        Inl e \<Rightarrow> (dbs, s, [GenerationError e])
      | Inr response \<Rightarrow>
          if status_code response = 200 then
            (case response_field (json response) of
               Inl e \<Rightarrow> (dbs, s, [GenerationError e])
             | Inr response_text \<Rightarrow>
                 (case extract_generated_code response_text of
                    Inl e \<Rightarrow> (dbs, s, [GenerationError e])
                  | Inr generated_code \<Rightarrow>
                      store_generated_code timestamp user_input generated_code dbs s))
          else (dbs, s, [ApiError (status_code response) (body_text response)]))"

text \<open>The text taken as the request: the text area under the input method "Text", the input buffer otherwise; empty when there is none.\<close>

definition submitted_input :: "input_method \<Rightarrow> string \<Rightarrow> session_state \<Rightarrow> string" where
  "submitted_input method text_input s =
     (if method = Text \<and> text_input \<noteq> [] then text_input
      else if st_input_text_buffer s \<noteq> [] then st_input_text_buffer s
      else [])"

definition generate_code ::
  "rng \<Rightarrow> generation_api \<Rightarrow> string \<Rightarrow> input_method \<Rightarrow> string \<Rightarrow> user_databases \<Rightarrow> session_state
     \<Rightarrow> user_databases \<times> session_state \<times> ui_error list \<times> py_error option" where
  "generate_code g api timestamp method text_input dbs s =
     (let s0 = s\<lparr>st_auto_submit := False\<rparr>;
          user_input = submitted_input method text_input s0
      in if user_input = [] then (dbs, s0, [], None)
         else
           (case get_action g (st_Q_table s0) (1/10) of
              Inl e \<Rightarrow> (dbs, s0, [], Some e)
            | Inr action_idx \<Rightarrow>
                (let s1 = s0\<lparr>st_last_action_idx := action_idx\<rparr>
                 in case py_getitem actions (int action_idx) of
                      Inl e \<Rightarrow> (dbs, s1, [], Some e)
                    | Inr template \<Rightarrow>
                        (let prompt = py_format template user_input;
                             request = \<lparr>req_model = ''coderzz.ai'',
                               req_prompt = ''Generate '' @ st_code_language s1 @ '' code for: ''
                                 @ prompt @ ''. Only return code with proper formatting and comments. Do not include explanations outside of code comments.'',
                               req_stream = False, req_temperature = st_temperature s1\<rparr>
                         in case handle_response timestamp user_input (api request) dbs s1 of
                              (dbs', s', errors) \<Rightarrow>
                                (dbs', s'\<lparr>st_needs_rerun := True\<rparr>, errors, None)))))"

section \<open>Executing Python code\<close>

text \<open>
  An exception object of the executed code: its class and what \<open>str(e)\<close> does, which is
  to return a text or to raise an exception in turn. The class is one of the three
  built-in classes that derive from \<open>BaseException\<close> and not from \<open>Exception\<close>, another
  class that does not derive from \<open>Exception\<close> (a user class derived from
  \<open>BaseException\<close>, \<open>asyncio.CancelledError\<close>), or a class derived from \<open>Exception\<close>.
\<close>

datatype exception_class =
    SystemExit
  | KeyboardInterrupt
  | GeneratorExit
  | BaseExceptionSubclass string
  | ExceptionSubclass string

datatype py_exception = PyException exception_class "py_exception + string"

text \<open>\<open>isinstance(e, Exception)\<close>, the test of the handler \<open>except Exception\<close>.\<close>

fun isinstance_Exception :: "exception_class \<Rightarrow> bool" where
  "isinstance_Exception (ExceptionSubclass name) = True"
| "isinstance_Exception (BaseExceptionSubclass name) = False"
| "isinstance_Exception SystemExit = False"
| "isinstance_Exception KeyboardInterrupt = False"
| "isinstance_Exception GeneratorExit = False"

text \<open>
  The Python interpreter is a parameter: \<open>exec code\<close> is \<open>None\<close> when
  \<open>exec(code, {}, local_namespace)\<close> never returns, and otherwise the state in which it
  leaves the two redirected buffers, their contents and whether the executed code has
  closed them, together with the exception that ended the run, if any.
\<close>

record run =
  run_stdout :: string
  run_stderr :: string
  run_stdout_closed :: bool
  run_stderr_closed :: bool
  run_raised :: "py_exception option"

type_synonym interpreter = "string \<Rightarrow> run option"

text \<open>A write to a closed \<open>StringIO\<close>, and \<open>getvalue\<close> on it, raise this exception.\<close>

definition closed_file_error :: py_exception where
  "closed_file_error = PyException (ExceptionSubclass ''ValueError'') (Inr ''I/O operation on closed file'')"

text \<open>
  The two statements after the \<open>with\<close> block: \<open>stdout_buffer.getvalue()\<close>, then
  \<open>stderr_buffer.getvalue()\<close>, then the returned triple.
\<close>

definition captured_output ::
  "run \<Rightarrow> string \<Rightarrow> bool \<Rightarrow> py_exception + (string \<times> string \<times> bool)" where
  "captured_output r stderr_output execution_successful =
     (if run_stdout_closed r then Inl closed_file_error
      else if run_stderr_closed r then Inl closed_file_error
      else Inr (run_stdout r, stderr_output, execution_successful))"

text \<open>
  \<open>execute_python_code\<close>: \<open>None\<close> when it never returns, \<open>Inl\<close> the exception that
  reaches its caller, \<open>Inr\<close> the triple it returns. The handler \<open>except Exception\<close> takes
  the instances of \<open>Exception\<close> only; in it \<open>str(e)\<close> may raise, and so may the
  \<open>print\<close> into a closed buffer; \<open>print\<close> ends the line with a newline.
\<close>

definition execute_python_code ::
  "interpreter \<Rightarrow> string \<Rightarrow> (py_exception + (string \<times> string \<times> bool)) option" where
  "execute_python_code exec code_to_execute =
     (case exec code_to_execute of
        None \<Rightarrow> None
      | Some r \<Rightarrow>
          Some (case run_raised r of
                  None \<Rightarrow> captured_output r (run_stderr r) True
                | Some (PyException cls str_e) \<Rightarrow>
                    if isinstance_Exception cls then
                      (case str_e of
                         Inl raised_by_str \<Rightarrow> Inl raised_by_str
                       | Inr message \<Rightarrow>
                           if run_stderr_closed r then Inl closed_file_error
                           else captured_output r
                                  (run_stderr r @ ''Error: '' @ message @ [CHR 0x0A]) False)
                    else Inl (PyException cls str_e)))"

section \<open>State predicates and example environments\<close>

text \<open>\<open>create_user_db\<close> called \<open>n\<close> times for the same username.\<close>

fun create_user_db_times :: "nat \<Rightarrow> user_databases \<Rightarrow> string \<Rightarrow> user_databases" where
  "create_user_db_times 0 dbs username = dbs"
| "create_user_db_times (Suc n) dbs username =
     create_user_db (create_user_db_times n dbs username) username"

text \<open>The rows of \<open>user_preferences\<close> in a user's database; none when the file or the table is missing.\<close>

definition preference_rows :: "user_databases \<Rightarrow> string \<Rightarrow> pref_row list" where
  "preference_rows dbs username =
     (case dbs username of
        None \<Rightarrow> []
      | Some d \<Rightarrow> (case user_preferences_table d of None \<Rightarrow> [] | Some rows \<Rightarrow> rows))"

text \<open>
  The shape \<open>create_user_db\<close> gives a new user database: both tables exist and the
  first row of \<open>user_preferences\<close> has id 1.
\<close>

definition user_db_ready :: "user_databases \<Rightarrow> string \<Rightarrow> bool" where
  "user_db_ready dbs username =
     (case dbs username of
        None \<Rightarrow> False
      | Some d \<Rightarrow>
          chat_history_table d \<noteq> None \<and>
          (case user_preferences_table d of
             Some (r # rows) \<Rightarrow> pref_id r = 1
           | _ \<Rightarrow> False))"

text \<open>A generation fails when \<open>requests.post\<close> raises or the status code is not 200.\<close>

definition generation_failed :: "py_error + http_response \<Rightarrow> bool" where
  "generation_failed posted =
     (case posted of Inl e \<Rightarrow> True | Inr response \<Rightarrow> status_code response \<noteq> 200)"

text \<open>
  Example environments. \<open>example_bcrypt\<close> stands in for the library in the examples: in
  place of the key derivation it keeps the password behind the 29 characters of the
  salt, and it verifies as the library does, by hashing again with the salt read off the
  stored hash. \<open>flat_directory\<close> is an installation whose directory \<open>user_databases/\<close> has
  no subdirectory: the file of a username with a slash cannot be created.
  \<open>exploring_rng\<close> draws 0.05 and the index 2. \<open>timeout_api\<close> is a generation API
  whose every request times out.
\<close>

definition example_bcrypt :: bcrypt where
  "example_bcrypt =
     \<lparr>hashpw = (\<lambda>password salt. Inr (salt @ password)),
      checkpw = (\<lambda>password hashed. Inr (take 29 hashed @ password = hashed))\<rparr>"

definition flat_directory :: "string \<Rightarrow> bool" where
  "flat_directory username \<longleftrightarrow> CHR ''/'' \<notin> set username"

definition exploring_rng :: rng where
  "exploring_rng = \<lparr>random01 = 1/20, randbelow = (\<lambda>n. 2)\<rparr>"

definition timeout_api :: generation_api where
  "timeout_api request = Inl (RequestException ''Read timed out.'')"

definition alice_session :: session_state where
  "alice_session = (init_session_state ''session-1'')\<lparr>st_authenticated := True, st_username := ''alice''\<rparr>"

text \<open>
  Example sessions. Each registers a user in a fresh session on the empty database,
  sets the temperature to 0.9 and the speed to 8, logs out and logs in again: once the
  user \<open>alice\<close>, once the user with the empty username.
\<close>

definition example_salt :: string where
  "example_salt = ''$2b$12$abcdefghijklmnopqrstuv''"







section \<open>Properties of the bandit policy\<close>

lemma np_max_Max: "Q \<noteq> [] \<Longrightarrow> np_max Q = Inr (Max (set Q))"
  by (cases Q) (simp_all add: Max.set_eq_fold del: set_simps)

lemma py_index_nat: "i < n \<Longrightarrow> py_index n (int i) = Inr i"
  by (simp add: py_index_def)

text \<open>
  Claim C1. For a value table \<open>V\<close>, an index \<open>i\<close> in range and a reward \<open>r\<close>, the update
  with learning rate 0.1 and discount 0.9 returns the table whose entry \<open>i\<close> is
  \<open>V[i] + 0.1 * (r + 0.9 * max(V) - V[i])\<close>, the maximum being that of the table before
  the update, and whose other entries are those of \<open>V\<close>; on an all-zero table the
  entry becomes \<open>0.1 * r\<close>.
\<close>

theorem update_Q_spec:
  assumes "i < length V"
  shows "\<exists>V'. update_Q V (int i) r (1/10) (9/10) = Inr V'
           \<and> length V' = length V
           \<and> V' ! i = V ! i + (1/10) * (r + (9/10) * Max (set V) - V ! i)
           \<and> (\<forall>j < length V. j \<noteq> i \<longrightarrow> V' ! j = V ! j)
           \<and> (V = replicate (length V) 0 \<longrightarrow> V' ! i = (1/10) * r)"
proof -
  from assms have ne: "V \<noteq> []" by auto
  define V' where "V' = V[i := V ! i + (1/10) * (r + (9/10) * Max (set V) - V ! i)]"
  have run: "update_Q V (int i) r (1/10) (9/10) = Inr V'"
    using assms by (simp add: update_Q_def np_max_Max [OF ne] py_index_nat V'_def)
  have at_i: "V' ! i = V ! i + (1/10) * (r + (9/10) * Max (set V) - V ! i)"
    using assms by (simp add: V'_def)
  have zero: "V' ! i = (1/10) * r" if z: "V = replicate (length V) 0"
  proof -
    have "set V = {0}" using ne z by (metis length_0_conv set_replicate)
    moreover have "V ! i = 0" using assms z by (metis nth_replicate)
    ultimately show ?thesis using at_i by simp
  qed
  show ?thesis
    using run at_i zero by (intro exI [of _ V']) (simp add: V'_def)
qed

theorem update_Q_spec_witness:
  "(2::nat) < length [0, 0, 0, 0 :: real]
   \<and> update_Q [0, 0, 0, 0] 2 2 (1/10) (9/10) = Inr [0, 0, 1/5, 0]"
proof -
  have h: "(2::nat) < length [0, 0, 0, 0 :: real]" by simp
  from update_Q_spec [OF h, of 2] obtain V' where
    "update_Q [0, 0, 0, 0] (int 2) 2 (1/10) (9/10) = Inr V'" by blast
  moreover have "update_Q [0, 0, 0, 0] (int 2) 2 (1/10) (9/10) = Inr [0, 0, 1/5, 0]"
    by (simp add: update_Q_def py_index_def)
  ultimately show ?thesis by simp
qed


lemma argmax_scan_first:
  assumes "length pre = i" "b < i" "pre ! b = v" "\<forall>j<i. pre ! j \<le> v" "\<forall>j<b. pre ! j < v"
  shows "argmax_scan xs i b v < length (pre @ xs)
       \<and> (\<forall>j<length (pre @ xs). (pre @ xs) ! j \<le> (pre @ xs) ! argmax_scan xs i b v)
       \<and> (\<forall>j<argmax_scan xs i b v. (pre @ xs) ! j < (pre @ xs) ! argmax_scan xs i b v)"
  using assms
proof (induction xs arbitrary: pre i b v)
  case Nil
  then show ?case by simp
next
  case (Cons x xs)
  let ?pre = "pre @ [x]"
  have eq: "pre @ x # xs = ?pre @ xs" by simp
  show ?case
  proof (cases "v < x")
    case True
    have "argmax_scan xs (Suc i) i x < length (?pre @ xs)
       \<and> (\<forall>j<length (?pre @ xs). (?pre @ xs) ! j \<le> (?pre @ xs) ! argmax_scan xs (Suc i) i x)
       \<and> (\<forall>j<argmax_scan xs (Suc i) i x. (?pre @ xs) ! j < (?pre @ xs) ! argmax_scan xs (Suc i) i x)"
    proof (rule Cons.IH)
      show "length ?pre = Suc i" using Cons.prems by simp
      show "i < Suc i" by simp
      show "?pre ! i = x" using Cons.prems by (simp add: nth_append)
      show "\<forall>j<Suc i. ?pre ! j \<le> x"
        using Cons.prems True by (auto simp: nth_append less_Suc_eq intro: less_imp_le order_trans)
      show "\<forall>j<i. ?pre ! j < x"
        using Cons.prems True by (auto simp: nth_append intro: le_less_trans)
    qed
    then show ?thesis using True unfolding eq by simp
  next
    case False
    have "argmax_scan xs (Suc i) b v < length (?pre @ xs)
       \<and> (\<forall>j<length (?pre @ xs). (?pre @ xs) ! j \<le> (?pre @ xs) ! argmax_scan xs (Suc i) b v)
       \<and> (\<forall>j<argmax_scan xs (Suc i) b v. (?pre @ xs) ! j < (?pre @ xs) ! argmax_scan xs (Suc i) b v)"
    proof (rule Cons.IH)
      show "length ?pre = Suc i" using Cons.prems by simp
      show "b < Suc i" using Cons.prems by simp
      show "?pre ! b = v" using Cons.prems by (simp add: nth_append)
      show "\<forall>j<Suc i. ?pre ! j \<le> v"
        using Cons.prems False by (auto simp: nth_append less_Suc_eq)
      show "\<forall>j<b. ?pre ! j < v"
        using Cons.prems by (auto simp: nth_append)
    qed
    then show ?thesis using False unfolding eq by simp
  qed
qed

lemma np_argmax_first:
  assumes "V \<noteq> []"
  shows "\<exists>k. np_argmax V = Inr k \<and> k < length V \<and> V ! k = Max (set V)
             \<and> (\<forall>j<k. V ! j < Max (set V))"
proof -
  from assms obtain x xs where V: "V = x # xs" by (cases V) auto
  let ?k = "argmax_scan xs 1 0 x"
  have *: "?k < length ([x] @ xs)
       \<and> (\<forall>j<length ([x] @ xs). ([x] @ xs) ! j \<le> ([x] @ xs) ! ?k)
       \<and> (\<forall>j<?k. ([x] @ xs) ! j < ([x] @ xs) ! ?k)"
    by (rule argmax_scan_first) simp_all
  have k: "?k < length V" and ub: "\<forall>j<length V. V ! j \<le> V ! ?k"
    and first: "\<forall>j<?k. V ! j < V ! ?k"
    using * by (simp_all add: V)
  have "Max (set V) = V ! ?k"
  proof (rule Max_eqI)
    show "finite (set V)" by simp
    show "y \<le> V ! ?k" if "y \<in> set V" for y
      using that ub by (auto simp: in_set_conv_nth)
    show "V ! ?k \<in> set V" using k by simp
  qed
  then show ?thesis using k first by (simp add: V)
qed

text \<open>
  Claim C2. With \<open>epsilon = 0\<close> the draw of \<open>random.uniform(0, 1)\<close> is never below
  \<open>epsilon\<close>, and \<open>get_action\<close> on a non-empty value table returns the lowest index that
  holds the maximum of the table; on the table of four zeros it returns 0.
\<close>

theorem get_action_greedy:
  assumes "V \<noteq> []" and "rng_ok g"
  shows "(\<exists>k. get_action g V 0 = Inr k \<and> k < length V \<and> V ! k = Max (set V)
             \<and> (\<forall>j<k. V ! j < Max (set V)))
       \<and> get_action g [0, 0, 0, 0] 0 = Inr 0"
proof -
  have greedy: "get_action g Q 0 = np_argmax Q" for Q
    using assms(2) by (simp add: get_action_def py_uniform_def rng_ok_def)
  show ?thesis
    using np_argmax_first [OF assms(1)] by (simp add: greedy)
qed

theorem get_action_greedy_witness:
  "[1, 3, 3, 2 :: real] \<noteq> [] \<and> rng_ok \<lparr>random01 = 0, randbelow = (\<lambda>n. 0)\<rparr>
   \<and> get_action \<lparr>random01 = 0, randbelow = (\<lambda>n. 0)\<rparr> [1, 3, 3, 2] 0 = Inr 1
   \<and> get_action \<lparr>random01 = 0, randbelow = (\<lambda>n. 0)\<rparr> [0, 0, 0, 0] 0 = Inr 0"
proof -
  have h1: "[1, 3, 3, 2 :: real] \<noteq> []" by simp
  have h2: "rng_ok \<lparr>random01 = 0, randbelow = (\<lambda>n. 0)\<rparr>" by (simp add: rng_ok_def)
  have "get_action \<lparr>random01 = 0, randbelow = (\<lambda>n. 0)\<rparr> [1, 3, 3, 2] 0 = Inr 1"
    by (simp add: get_action_def py_uniform_def)
  then show ?thesis using h1 h2 get_action_greedy [OF h1 h2] by simp
qed


section \<open>Properties of the response parsing\<close>

lemma py_find_occurs:
  "py_find sub s = Some i \<Longrightarrow> take (length sub) (drop i s) = sub"
proof (induction s arbitrary: i)
  case Nil
  then show ?case by (cases "sub = []") simp_all
next
  case (Cons c cs)
  then show ?case by (auto split: if_splits)
qed

lemma py_find_lowest:
  "py_find sub s = Some i \<Longrightarrow> j < i \<Longrightarrow> take (length sub) (drop j s) \<noteq> sub"
proof (induction s arbitrary: i j)
  case Nil
  then show ?case by (simp split: if_splits)
next
  case (Cons c cs)
  from Cons.prems have ne: "take (length sub) (c # cs) \<noteq> sub"
    by (auto split: if_splits)
  with Cons.prems obtain i' where i': "py_find sub cs = Some i'" "i = Suc i'" by auto
  show ?case
  proof (cases j)
    case 0
    with ne show ?thesis by simp
  next
    case (Suc j')
    with Cons.prems i' have "j' < i'" by simp
    with Cons.IH i' have "take (length sub) (drop j' cs) \<noteq> sub" by blast
    with Suc show ?thesis by simp
  qed
qed

lemma py_find_None:
  "py_find sub s = None \<Longrightarrow> take (length sub) (drop j s) \<noteq> sub"
proof (induction s arbitrary: j)
  case Nil
  then show ?case by (auto split: if_splits)
next
  case (Cons c cs)
  then show ?case by (cases j) (auto split: if_splits)
qed

lemma fence_nonempty: "fence \<noteq> []"
  by (simp add: fence_def)

lemma split_pieces_second:
  assumes "sep \<noteq> []" and "py_find sep s = Some i"
  shows "\<exists>others. split_pieces sep s =
           take i s #
           (case py_find sep (drop (i + length sep) s) of
              None \<Rightarrow> drop (i + length sep) s
            | Some j \<Rightarrow> take j (drop (i + length sep) s)) # others"
proof -
  have "split_pieces sep s = take i s # split_pieces sep (drop (i + length sep) s)"
    using assms by (subst split_pieces.simps) simp
  moreover have "\<exists>others. split_pieces sep (drop (i + length sep) s) =
      (case py_find sep (drop (i + length sep) s) of
              None \<Rightarrow> drop (i + length sep) s
            | Some j \<Rightarrow> take j (drop (i + length sep) s)) # others"
    using assms(1) by (subst split_pieces.simps) (simp split: option.splits)
  ultimately show ?thesis by auto
qed

lemma py_getitem_second: "py_getitem (x # y # others) 1 = Inr y"
  by (simp add: py_getitem_def py_index_def)

text \<open>
  Claim C3, as amended. When the trimmed response text contains a fence delimiter, the
  stored artifact is the contents of the first fenced block put back between two fence
  delimiters; otherwise it is the whole trimmed response text.
\<close>

theorem extract_generated_code_fenced:
  "extract_generated_code response_text =
     (case first_fenced_block (py_strip response_text) of
        Some block \<Rightarrow> Inr (fence @ block @ fence)
      | None \<Rightarrow> Inr (py_strip response_text))
   \<and> (py_in fence (py_strip response_text)
        \<longleftrightarrow> first_fenced_block (py_strip response_text) \<noteq> None)"
proof (cases "py_find fence (py_strip response_text)")
  case None
  then show ?thesis
    by (simp add: extract_generated_code_def first_fenced_block_def py_in_def)
next
  case (Some i)
  let ?t = "py_strip response_text"
  let ?block = "case py_find fence (drop (i + length fence) ?t) of
              None \<Rightarrow> drop (i + length fence) ?t
            | Some j \<Rightarrow> take j (drop (i + length fence) ?t)"
  from split_pieces_second [OF fence_nonempty Some] obtain others where
    pieces: "split_pieces fence ?t = take i ?t # ?block # others" by blast
  have block: "first_fenced_block ?t = Some ?block"
    using Some by (simp add: first_fenced_block_def split: option.splits)
  have "extract_generated_code response_text = Inr (fence @ ?block @ fence)"
    using Some
    by (simp add: extract_generated_code_def py_in_def py_split_def fence_nonempty pieces
        py_getitem_second Let_def del: split_pieces.simps)
  moreover have "py_in fence ?t" using Some by (simp add: py_in_def)
  ultimately show ?thesis by (simp add: block)
qed

theorem extract_generated_code_fenced_witness:
  "extract_generated_code ('' no code here '') = Inr ''no code here''
   \<and> \<not> py_in fence (py_strip '' no code here '')
   \<and> extract_generated_code (''Sure: '' @ fence @ ''x = 1'' @ fence) = Inr (fence @ ''x = 1'' @ fence)
   \<and> py_in fence (py_strip (''Sure: '' @ fence @ ''x = 1'' @ fence))"
  using extract_generated_code_fenced [of "'' no code here ''"]
    extract_generated_code_fenced [of "''Sure: '' @ fence @ ''x = 1'' @ fence"]
  by (simp add: first_fenced_block_def py_strip_def py_isspace_def fence_def)

text \<open>
  Claim C3 as stated fails: the stored artifact keeps the fence delimiters around the
  contents of the first block.
\<close>

theorem extract_generated_code_keeps_fences:
  "first_fenced_block (py_strip ('' Here: '' @ fence @ ''print(1)'' @ fence @ '' Done.'')) = Some ''print(1)''
   \<and> extract_generated_code ('' Here: '' @ fence @ ''print(1)'' @ fence @ '' Done.'')
       = Inr (fence @ ''print(1)'' @ fence)
   \<and> extract_generated_code ('' Here: '' @ fence @ ''print(1)'' @ fence @ '' Done.'')
       \<noteq> Inr ''print(1)''"
  by (simp add: extract_generated_code_def first_fenced_block_def py_strip_def py_isspace_def
      py_in_def py_split_def py_getitem_def py_index_def fence_def)

section \<open>Properties of the code generation\<close>

lemma handle_response_failed:
  assumes "generation_failed posted"
    and "handle_response timestamp user_input posted dbs s = (dbs', s', errors)"
  shows "dbs' = dbs \<and> s' = s"
  using assms
  by (auto simp: generation_failed_def handle_response_def split: sum.splits)

lemma submitted_input_auto_submit [simp]:
  "submitted_input method text_input (s\<lparr>st_auto_submit := b\<rparr>) = submitted_input method text_input s"
  by (simp add: submitted_input_def)

text \<open>
  Claim C4, as amended. When the generation fails, by an exception of the request or a
  status code other than 200, the value table, the displayed chat history, the stored
  artifact and the user databases are after the request what they were before it, and
  no chat entry is written. The index of the last chosen arm is the arm selected for
  this request.
\<close>

theorem generate_code_failed:
  assumes "\<forall>request. generation_failed (api request)"
    and "generate_code g api timestamp method text_input dbs s = (dbs', s', errors, exc)"
  shows "dbs' = dbs
       \<and> st_Q_table s' = st_Q_table s
       \<and> st_chat_history s' = st_chat_history s
       \<and> st_generated_code s' = st_generated_code s
       \<and> st_last_action_idx s' =
           (if submitted_input method text_input s = [] then st_last_action_idx s
            else case get_action g (st_Q_table s) (1/10) of
                   Inl e \<Rightarrow> st_last_action_idx s
                 | Inr action_idx \<Rightarrow> action_idx)"
proof (cases "submitted_input method text_input s = []")
  case True
  with assms(2) show ?thesis by (auto simp: generate_code_def)
next
  case False
  show ?thesis
  proof (cases "get_action g (st_Q_table s) (1/10)")
    case (Inl e)
    with False assms(2) show ?thesis by (auto simp: generate_code_def)
  next
    case (Inr action_idx)
    let ?s1 = "s\<lparr>st_auto_submit := False, st_last_action_idx := action_idx\<rparr>"
    show ?thesis
    proof (cases "py_getitem actions (int action_idx)")
      case (Inl e)
      with False Inr assms(2) show ?thesis by (auto simp: generate_code_def)
    next
      case template: (Inr template)
      obtain request where run: "generate_code g api timestamp method text_input dbs s =
          (case handle_response timestamp (submitted_input method text_input s) (api request) dbs ?s1 of
             (dbs', s', errors) \<Rightarrow> (dbs', s'\<lparr>st_needs_rerun := True\<rparr>, errors, None))"
        using False Inr template by (simp add: generate_code_def Let_def)
      obtain d t es where hr: "handle_response timestamp (submitted_input method text_input s)
          (api request) dbs ?s1 = (d, t, es)"
        by (metis prod_cases3)
      from assms(1) have "generation_failed (api request)" by blast
      from handle_response_failed [OF this hr] have "d = dbs" "t = ?s1" by simp_all
      with run hr assms(2) False Inr show ?thesis by auto
    qed
  qed
qed

lemma timeout_api_failed: "generation_failed (timeout_api request)"
  by (simp add: generation_failed_def timeout_api_def)

lemma generate_code_timeout_run:
  "generate_code exploring_rng timeout_api ''2025-01-01 10:00:00'' Text ''add two numbers''
      Map.empty alice_session =
     (Map.empty,
      alice_session\<lparr>st_auto_submit := False, st_last_action_idx := 2, st_needs_rerun := True\<rparr>,
      [GenerationError (RequestException ''Read timed out.'')], None)"
proof -
  have a: "get_action exploring_rng Q (1/10) = Inr 2" for Q
    by (simp add: get_action_def py_uniform_def exploring_rng_def py_choice_def num_actions_def
        actions_def)
  have t: "py_getitem actions 2 = Inr ''Generate code for: {} and add detailed comments for clarity''"
    by (simp add: py_getitem_def py_index_def actions_def)
  have h: "handle_response ts ui (timeout_api request) dbs s =
      (dbs, s, [GenerationError (RequestException ''Read timed out.'')])" for ts ui request dbs s
    by (simp add: handle_response_def timeout_api_def)
  show ?thesis
    by (simp add: generate_code_def submitted_input_def a t h Let_def)
qed

theorem generate_code_failed_witness:
  "(\<forall>request. generation_failed (timeout_api request))
   \<and> fst (generate_code exploring_rng timeout_api ''2025-01-01 10:00:00'' Text
        ''add two numbers'' Map.empty alice_session) = Map.empty
   \<and> st_Q_table (fst (snd (generate_code exploring_rng timeout_api ''2025-01-01 10:00:00'' Text
        ''add two numbers'' Map.empty alice_session))) = st_Q_table alice_session
   \<and> st_chat_history (fst (snd (generate_code exploring_rng timeout_api ''2025-01-01 10:00:00''
        Text ''add two numbers'' Map.empty alice_session))) = st_chat_history alice_session"
proof -
  define out where "out = generate_code exploring_rng timeout_api ''2025-01-01 10:00:00'' Text
        ''add two numbers'' Map.empty alice_session"
  have h: "\<forall>request. generation_failed (timeout_api request)"
    by (simp add: timeout_api_failed)
  have run: "generate_code exploring_rng timeout_api ''2025-01-01 10:00:00'' Text
        ''add two numbers'' Map.empty alice_session
      = (fst out, fst (snd out), fst (snd (snd out)), snd (snd (snd out)))"
    by (simp add: out_def)
  from generate_code_failed [OF h run]
  have "fst out = Map.empty \<and> st_Q_table (fst (snd out)) = st_Q_table alice_session
      \<and> st_chat_history (fst (snd out)) = st_chat_history alice_session"
    by simp
  with h show ?thesis unfolding out_def by simp
qed

text \<open>
  Claim C4 as stated fails for the index of the last chosen arm: the arm is recorded
  before the request is sent, and a failed request leaves the new index in place.
\<close>

theorem generate_code_failed_changes_last_action:
  "generation_failed (Inl (RequestException ''Read timed out.''))
   \<and> timeout_api \<lparr>req_model = ''coderzz.ai'', req_prompt = ''p'', req_stream = False,
        req_temperature = 7/10\<rparr> = Inl (RequestException ''Read timed out.'')
   \<and> st_last_action_idx alice_session = 0
   \<and> st_last_action_idx (fst (snd (generate_code exploring_rng timeout_api ''2025-01-01 10:00:00''
        Text ''add two numbers'' Map.empty alice_session))) = 2"
proof -
  have "st_last_action_idx alice_session = 0"
    by (simp add: alice_session_def init_session_state_def)
  then show ?thesis
    by (simp add: generate_code_timeout_run timeout_api_def generation_failed_def)
qed

section \<open>Properties of the user databases\<close>

lemma next_rowid_Nil: "next_rowid [] = 1"
  by (simp add: next_rowid_def)

lemma create_user_db_rows:
  "preference_rows (create_user_db dbs username) username =
     preference_rows dbs username @
       [\<lparr>pref_id = next_rowid (map pref_id (preference_rows dbs username)),
         pref_temperature = 7/10, pref_speed = 5, pref_favorite_language = ''python''\<rparr>]"
  by (simp add: create_user_db_def preference_rows_def connect_def Let_def
      split: option.splits)

lemma create_user_db_times_length:
  "length (preference_rows (create_user_db_times n dbs username) username) =
     length (preference_rows dbs username) + n"
  by (induction n) (simp_all add: create_user_db_rows)

text \<open>
  Claim C5 at the failing input: \<open>create_user_db\<close> called twice for a username without a
  database leaves two rows in \<open>user_preferences\<close>, with the ids 1 and 2.
\<close>

theorem create_user_db_twice:
  "preference_rows (create_user_db (create_user_db Map.empty ''alice'') ''alice'') ''alice'' =
     [\<lparr>pref_id = 1, pref_temperature = 7/10, pref_speed = 5, pref_favorite_language = ''python''\<rparr>,
      \<lparr>pref_id = 2, pref_temperature = 7/10, pref_speed = 5, pref_favorite_language = ''python''\<rparr>]"
proof -
  have "preference_rows Map.empty ''alice'' = []"
    by (simp add: preference_rows_def)
  then show ?thesis
    by (simp add: create_user_db_rows next_rowid_def)
qed

section \<open>Properties of the credential store\<close>

lemma authenticate_user_cases:
  "authenticate_user bc db u p =
     (case find (\<lambda>r. user_username r = u) (users db) of
        None \<Rightarrow> Inr (False, ''Username not found.'')
      | Some row \<Rightarrow>
          (case checkpw bc p (user_password row) of
             Inl message \<Rightarrow> Inl (BcryptError message)
           | Inr ok \<Rightarrow>
               Inr (if ok then (True, ''Login successful!'') else (False, ''Incorrect password.''))))"
  by (simp add: authenticate_user_def verify_password_def split: option.splits sum.splits bool.splits)

lemma find_append_cases:
  "find P (xs @ ys) = (case find P xs of None \<Rightarrow> find P ys | Some x \<Rightarrow> Some x)"
  by (induction xs) simp_all

lemma authenticate_user_not_found:
  "username \<notin> set (map user_username (users db)) \<Longrightarrow>
     authenticate_user bc db username password = Inr (False, ''Username not found.'')"
proof -
  assume "username \<notin> set (map user_username (users db))"
  then have "find (\<lambda>r. user_username r = username) (users db) = None"
    by (auto simp: find_None_iff)
  then show ?thesis by (simp add: authenticate_user_cases)
qed

text \<open>
  A registration whose hashing succeeds stores the credential of a new username
  whether or not the user's database can be created; only the returned flag differs.
  The stored credential then verifies as the library says.
\<close>

lemma register_user_stores:
  assumes "hashpw bc password salt = Inr hashed"
    and "username \<notin> set (map user_username (users db))"
  shows "\<exists>db' message. register_user bc can_create salt t db username password
             = (db', can_create username, message)
           \<and> find (\<lambda>r. user_username r = username) (users db') \<noteq> None
           \<and> authenticate_user bc db' username q =
               (case checkpw bc q hashed of
                  Inl m \<Rightarrow> Inl (BcryptError m)
                | Inr ok \<Rightarrow>
                    Inr (if ok then (True, ''Login successful!'')
                         else (False, ''Incorrect password.'')))"
proof -
  from assms(2) have none: "find (\<lambda>r. user_username r = username) (users db) = None"
    by (auto simp: find_None_iff)
  show ?thesis
    using assms none
    by (cases "can_create username")
      (simp_all add: register_user_def hash_password_def Let_def authenticate_user_cases
        find_append_cases)
qed

text \<open>
  Claim C6 at the failing input: where the database file of the username \<open>a/b\<close> cannot
  be created, \<open>register_user\<close> commits the credential and fails with
  \<open>Error: unable to open database file\<close>, and \<open>authenticate_user\<close> then succeeds for this
  username and password although no registration succeeded. The library enters with
  what it does at this password: it hashes it, and the hash verifies it.
\<close>

theorem register_user_fails_after_commit:
  assumes "\<not> can_create ''a/b''"
    and "hashpw bc ''secret1'' salt = Inr hashed"
    and "checkpw bc ''secret1'' hashed = Inr True"
  shows "register_user bc can_create salt current_time init_db ''a/b'' ''secret1''
     = (\<lparr>users = [\<lparr>user_id = 1, user_username = ''a/b'', user_password = hashed,
                     user_created_at = current_time\<rparr>],
         user_dbs = Map.empty\<rparr>,
        False, ''Error: unable to open database file'')
   \<and> authenticate_user bc
        \<lparr>users = [\<lparr>user_id = 1, user_username = ''a/b'', user_password = hashed,
                     user_created_at = current_time\<rparr>],
         user_dbs = Map.empty\<rparr>
        ''a/b'' ''secret1''
     = Inr (True, ''Login successful!'')"
proof -
  have reg: "register_user bc can_create salt current_time init_db ''a/b'' ''secret1''
     = (\<lparr>users = [\<lparr>user_id = 1, user_username = ''a/b'', user_password = hashed,
                     user_created_at = current_time\<rparr>],
         user_dbs = Map.empty\<rparr>,
        False, ''Error: unable to open database file'')"
    using assms(1,2)
    by (simp add: register_user_def hash_password_def init_db_def next_rowid_def)
  have auth: "authenticate_user bc
        \<lparr>users = [\<lparr>user_id = 1, user_username = ''a/b'', user_password = hashed,
                     user_created_at = current_time\<rparr>],
         user_dbs = Map.empty\<rparr>
        ''a/b'' ''secret1''
     = Inr (True, ''Login successful!'')"
    using assms(3) by (simp add: authenticate_user_def verify_password_def)
  from reg auth show ?thesis by simp
qed

theorem register_user_fails_after_commit_witness:
  "\<not> flat_directory ''a/b''
   \<and> hashpw example_bcrypt ''secret1'' example_salt = Inr (example_salt @ ''secret1'')
   \<and> checkpw example_bcrypt ''secret1'' (example_salt @ ''secret1'') = Inr True
   \<and> register_user example_bcrypt flat_directory example_salt ''2025-01-01 10:00:00'' init_db
        ''a/b'' ''secret1''
     = (\<lparr>users = [\<lparr>user_id = 1, user_username = ''a/b'',
                     user_password = example_salt @ ''secret1'',
                     user_created_at = ''2025-01-01 10:00:00''\<rparr>],
         user_dbs = Map.empty\<rparr>,
        False, ''Error: unable to open database file'')
   \<and> authenticate_user example_bcrypt
        \<lparr>users = [\<lparr>user_id = 1, user_username = ''a/b'',
                     user_password = example_salt @ ''secret1'',
                     user_created_at = ''2025-01-01 10:00:00''\<rparr>],
         user_dbs = Map.empty\<rparr>
        ''a/b'' ''secret1''
     = Inr (True, ''Login successful!'')"
proof -
  have h1: "\<not> flat_directory ''a/b''" by (simp add: flat_directory_def)
  have h2: "hashpw example_bcrypt ''secret1'' example_salt = Inr (example_salt @ ''secret1'')"
    by (simp add: example_bcrypt_def)
  have h3: "checkpw example_bcrypt ''secret1'' (example_salt @ ''secret1'') = Inr True"
    by (simp add: example_bcrypt_def example_salt_def)
  from register_user_fails_after_commit
    [of flat_directory example_bcrypt example_salt "example_salt @ ''secret1''"
      "''2025-01-01 10:00:00''", OF h1 h2 h3] h1 h2 h3
  show ?thesis by simp
qed

section \<open>Properties of the preferences\<close>


lemma register_user_ready:
  assumes "register_user bc can_create salt t db u p = (db', True, message)"
    and "user_dbs db u = None"
  shows "user_db_ready (user_dbs db') u
       \<and> get_user_preferences (user_dbs db') u = Inr default_preferences"
  using assms
  by (auto simp: register_user_def create_user_db_def user_db_ready_def connect_def
      next_rowid_def get_user_preferences_def default_preferences_def Let_def
      split: if_splits sum.splits)


text \<open>
  The language of an authenticated session is the stored favourite language: a login
  loads it, and a registration leaves the default of the session, which is the default
  of the new database.
\<close>

lemma login_callback_loads:
  assumes "authenticate_user bc db u p = Inr (True, message)"
    and "get_user_preferences (user_dbs db) u = Inr stored"
    and "login_callback bc db s u p = (s', e)"
  shows "st_authenticated s' \<and> st_username s' = u
       \<and> st_code_language s' = favorite_language stored"
  using assms by (auto simp: login_callback_def Let_def split: sum.splits)

lemma register_callback_loads:
  assumes "register_callback bc can_create salt t db (init_session_state sid) u p p' = (db', s')"
    and "st_authenticated s'" and "user_dbs db u = None"
  shows "st_username s' = u \<and> user_db_ready (user_dbs db') u
       \<and> get_user_preferences (user_dbs db') u = Inr default_preferences
       \<and> st_code_language s' = favorite_language default_preferences"
proof -
  have init: "\<not> st_authenticated (init_session_state sid)"
    "st_code_language (init_session_state sid) = ''python''"
    by (simp_all add: init_session_state_def)
  from assms(1,2) init obtain message where
    reg: "register_user bc can_create salt t db u p = (db', True, message)"
    and s': "s' = (init_session_state sid)\<lparr>st_authenticated := True, st_username := u,
                    st_register_error := []\<rparr>"
    by (auto simp: register_callback_def split: if_splits prod.splits bool.splits)
  from register_user_ready [OF reg assms(3)] s' init show ?thesis
    by (simp add: default_preferences_def)
qed





section \<open>Properties of the chat history\<close>

lemma mset_insert_desc: "mset (insert_desc r xs) = add_mset r (mset xs)"
  by (induction xs) simp_all

lemma set_insert_desc: "set (insert_desc r xs) = insert r (set xs)"
  by (induction xs) auto

lemma sorted_insert_desc:
  "sorted_wrt (\<lambda>a b. chat_timestamp b \<le> chat_timestamp a) xs \<Longrightarrow>
   sorted_wrt (\<lambda>a b. chat_timestamp b \<le> chat_timestamp a) (insert_desc r xs)"
proof (induction xs)
  case Nil
  then show ?case by simp
next
  case (Cons x xs)
  show ?case
  proof (cases "chat_timestamp x < chat_timestamp r")
    case True
    with Cons.prems show ?thesis by (auto intro: less_imp_le order_trans)
  next
    case False
    with Cons show ?thesis by (auto simp: set_insert_desc)
  qed
qed

lemma mset_foldl_insert_desc:
  "mset (foldl (\<lambda>sorted r. insert_desc r sorted) acc rows) = mset acc + mset rows"
  by (induction rows arbitrary: acc) (simp_all add: mset_insert_desc)

lemma sorted_foldl_insert_desc:
  "sorted_wrt (\<lambda>a b. chat_timestamp b \<le> chat_timestamp a) acc \<Longrightarrow>
   sorted_wrt (\<lambda>a b. chat_timestamp b \<le> chat_timestamp a)
     (foldl (\<lambda>sorted r. insert_desc r sorted) acc rows)"
  by (induction rows arbitrary: acc) (simp_all add: sorted_insert_desc)

lemma mset_order_by_timestamp_desc: "mset (order_by_timestamp_desc rows) = mset rows"
  by (simp add: order_by_timestamp_desc_def mset_foldl_insert_desc)

lemma sorted_order_by_timestamp_desc:
  "sorted_wrt (\<lambda>a b. chat_timestamp b \<le> chat_timestamp a) (order_by_timestamp_desc rows)"
  by (simp add: order_by_timestamp_desc_def sorted_foldl_insert_desc)

lemma fst_chat_entry: "fst (chat_entry r) = chat_timestamp r"
  by (simp add: chat_entry_def)

text \<open>
  Claim C8. \<open>load_chat_history\<close> returns the empty list when the user has no database.
  Otherwise it returns at most 10 entries, in the order of falling time stamps, and
  they are the most recent ones: together with the entries left out they are the
  stored entries, and no entry left out has a later time stamp than a returned one.
\<close>

theorem load_chat_history_recent:
  "(dbs username = None \<longrightarrow> load_chat_history dbs username = Inr [])
   \<and> (dbs username = Some d \<and> chat_history_table d = Some rows \<longrightarrow>
        (\<exists>recent older.
           load_chat_history dbs username = Inr recent
           \<and> length recent \<le> 10
           \<and> length recent = min 10 (length rows)
           \<and> sorted_wrt (\<lambda>a b. fst b \<le> fst a) recent
           \<and> mset (recent @ older) = mset (map chat_entry rows)
           \<and> (\<forall>x \<in> set recent. \<forall>y \<in> set older. fst y \<le> fst x)))"
proof (intro conjI impI)
  assume "dbs username = None"
  then show "load_chat_history dbs username = Inr []"
    by (simp add: load_chat_history_def)
next
  assume a: "dbs username = Some d \<and> chat_history_table d = Some rows"
  let ?sorted = "order_by_timestamp_desc rows"
  let ?recent = "map chat_entry (take 10 ?sorted)"
  let ?older = "map chat_entry (drop 10 ?sorted)"
  have len: "length ?sorted = length rows"
    by (metis mset_order_by_timestamp_desc size_mset)
  have sorted: "sorted_wrt (\<lambda>a b. chat_timestamp b \<le> chat_timestamp a) (take 10 ?sorted @ drop 10 ?sorted)"
    using sorted_order_by_timestamp_desc [of rows] by simp
  have run: "load_chat_history dbs username = Inr ?recent"
    using a by (simp add: load_chat_history_def)
  have l: "length ?recent = min 10 (length rows)"
    using len by simp
  have s: "sorted_wrt (\<lambda>a b. fst b \<le> fst a) ?recent"
    using sorted unfolding sorted_wrt_append
    by (simp add: sorted_wrt_map fst_chat_entry)
  have m: "mset (?recent @ ?older) = mset (map chat_entry rows)"
  proof -
    have "?recent @ ?older = map chat_entry ?sorted"
      by (simp flip: map_append)
    then show ?thesis by (simp add: mset_order_by_timestamp_desc)
  qed
  have o: "\<forall>x \<in> set ?recent. \<forall>y \<in> set ?older. fst y \<le> fst x"
    using sorted unfolding sorted_wrt_append by (auto simp: fst_chat_entry)
  show "\<exists>recent older.
           load_chat_history dbs username = Inr recent
           \<and> length recent \<le> 10
           \<and> length recent = min 10 (length rows)
           \<and> sorted_wrt (\<lambda>a b. fst b \<le> fst a) recent
           \<and> mset (recent @ older) = mset (map chat_entry rows)
           \<and> (\<forall>x \<in> set recent. \<forall>y \<in> set older. fst y \<le> fst x)"
    using run l s m o by (intro exI [of _ ?recent] exI [of _ ?older]) simp
qed


theorem load_chat_history_recent_witness:
  "load_chat_history
      (Map.empty(''alice'' \<mapsto>
         \<lparr>chat_history_table = Some
            [\<lparr>chat_id = 1, chat_timestamp = ''2025-01-01 10:00:00'', chat_user_input = ''a'',
               chat_generated_code = ''x''\<rparr>,
             \<lparr>chat_id = 2, chat_timestamp = ''2025-01-01 10:05:00'', chat_user_input = ''b'',
               chat_generated_code = ''y''\<rparr>],
           user_preferences_table = Some []\<rparr>))
      ''bob'' = Inr []
   \<and> load_chat_history
      (Map.empty(''alice'' \<mapsto>
         \<lparr>chat_history_table = Some
            [\<lparr>chat_id = 1, chat_timestamp = ''2025-01-01 10:00:00'', chat_user_input = ''a'',
               chat_generated_code = ''x''\<rparr>,
             \<lparr>chat_id = 2, chat_timestamp = ''2025-01-01 10:05:00'', chat_user_input = ''b'',
               chat_generated_code = ''y''\<rparr>],
           user_preferences_table = Some []\<rparr>))
      ''alice'' = Inr [(''2025-01-01 10:05:00'', ''b'', ''y''), (''2025-01-01 10:00:00'', ''a'', ''x'')]"
proof -
  let ?rows = "[\<lparr>chat_id = 1, chat_timestamp = ''2025-01-01 10:00:00'', chat_user_input = ''a'',
               chat_generated_code = ''x''\<rparr>,
             \<lparr>chat_id = 2, chat_timestamp = ''2025-01-01 10:05:00'', chat_user_input = ''b'',
               chat_generated_code = ''y''\<rparr>]"
  let ?d = "\<lparr>chat_history_table = Some ?rows, user_preferences_table = Some []\<rparr>"
  let ?dbs = "Map.empty(''alice'' \<mapsto> ?d)"
  have bob: "?dbs ''bob'' = None" by simp
  have "load_chat_history ?dbs ''bob'' = Inr []"
    using load_chat_history_recent [of ?dbs "''bob''" ?d ?rows] bob by blast
  moreover have "load_chat_history ?dbs ''alice'' =
      Inr [(''2025-01-01 10:05:00'', ''b'', ''y''), (''2025-01-01 10:00:00'', ''a'', ''x'')]"
    by (simp add: load_chat_history_def order_by_timestamp_desc_def chat_entry_def)
  ultimately show ?thesis by simp
qed

section \<open>Properties of the execution helper\<close>

text \<open>
  What the handler does catch: an instance of \<open>Exception\<close> whose \<open>str\<close> returns, raised
  by code that left both buffers open, ends in the returned triple with the error line
  added and \<open>False\<close>.
\<close>

lemma execute_python_code_caught:
  assumes "exec code = Some r"
    and "run_raised r = Some (PyException (ExceptionSubclass name) (Inr message))"
    and "\<not> run_stdout_closed r" and "\<not> run_stderr_closed r"
  shows "execute_python_code exec code =
           Some (Inr (run_stdout r, run_stderr r @ ''Error: '' @ message @ [CHR 0x0A], False))"
  using assms by (simp add: execute_python_code_def captured_output_def)

text \<open>
  Two more ways past the handler: \<open>str(e)\<close> raising inside it, and a buffer that the
  executed code has closed.
\<close>

lemma execute_python_code_str_raises:
  assumes "exec code = Some r"
    and "run_raised r = Some (PyException (ExceptionSubclass name) (Inl raised_by_str))"
  shows "execute_python_code exec code = Some (Inl raised_by_str)"
  using assms by (simp add: execute_python_code_def)

lemma execute_python_code_closed_buffer:
  assumes "exec code = Some r" and "run_raised r = None" and "run_stdout_closed r"
  shows "execute_python_code exec code = Some (Inl closed_file_error)"
  using assms by (simp add: execute_python_code_def captured_output_def)

text \<open>
  Claim C9 at the failing input: the executed code \<open>raise SystemExit(1)\<close> raises an
  exception that is not an instance of \<open>Exception\<close>; the handler \<open>except Exception\<close> does
  not catch it, no triple is returned and the exception reaches the caller.
\<close>

theorem execute_python_code_system_exit:
  "execute_python_code
     (Map.empty(''raise SystemExit(1)'' \<mapsto>
        \<lparr>run_stdout = [], run_stderr = [], run_stdout_closed = False,
         run_stderr_closed = False,
         run_raised = Some (PyException SystemExit (Inr ''1''))\<rparr>))
     ''raise SystemExit(1)''
   = Some (Inl (PyException SystemExit (Inr ''1'')))"
  by (simp add: execute_python_code_def)

section \<open>Properties of the registration callback\<close>

text \<open>
  Claim C10. When the password and its confirmation differ, or the password has fewer
  than 6 characters, \<open>register_callback\<close> leaves the credential store and the user
  databases as they are, sets a non-empty \<open>register_error\<close> and changes nothing else of
  the session; an unauthenticated session stays unauthenticated.
\<close>

theorem register_callback_rejects:
  assumes "register_password \<noteq> register_confirm_password \<or> length register_password < 6"
    and "register_callback bc can_create salt current_time db s register_username
           register_password register_confirm_password = (db', s')"
  shows "db' = db
       \<and> st_register_error s' \<noteq> []
       \<and> s' = s\<lparr>st_register_error := st_register_error s'\<rparr>
       \<and> st_authenticated s' = st_authenticated s
       \<and> (\<not> st_authenticated s \<longrightarrow> \<not> st_authenticated s')"
  using assms by (auto simp: register_callback_def split: if_splits)

theorem register_callback_rejects_witness:
  "register_callback example_bcrypt flat_directory example_salt ''2025-01-01 10:00:00'' init_db
        (init_session_state ''session-1'') ''alice'' ''secret1'' ''secret2''
      = (init_db, (init_session_state ''session-1'')\<lparr>st_register_error := ''Passwords do not match.''\<rparr>)
   \<and> \<not> st_authenticated ((init_session_state ''session-1'')\<lparr>st_register_error := ''Passwords do not match.''\<rparr>)"
proof -
  have h: "''secret1'' \<noteq> ''secret2'' \<or> length ''secret1'' < 6" by simp
  have run: "register_callback example_bcrypt flat_directory example_salt ''2025-01-01 10:00:00''
        init_db (init_session_state ''session-1'') ''alice'' ''secret1'' ''secret2''
      = (init_db, (init_session_state ''session-1'')\<lparr>st_register_error := ''Passwords do not match.''\<rparr>)"
    by (simp add: register_callback_def)
  have "\<not> st_authenticated (init_session_state ''session-1'')"
    by (simp add: init_session_state_def)
  with register_callback_rejects [OF h run] run show ?thesis by simp
qed

end
